theory Spec2Isabelle
  imports Main
begin

section \<open>Python values, exceptions and strings\<close>

text \<open>
  The handlers of \<^verbatim>\<open>purchasing/opportunities/views.py\<close> are Python 2 functions over
  a relational store, an upload store and the request. Every exception the source can
  raise on the paths modelled here is a value of \<open>py_error\<close>; a handler returns
  \<open>py_error + result\<close> with \<open>Inl\<close> for the raised exception.
\<close>

datatype py_error =
    AttributeError
  | KeyError string
  | IndexError
  | ValueError
  | ValidationError string
  | NotFound404
  | IOError
  | S3ResponseError

record FileStorage =
  fs_filename :: string
  fs_stream :: string

text \<open>The values a form's data mapping holds.\<close>

datatype pyval =
    PNone
  | PBool bool
  | PInt int
  | PStr string
  | PDate int
  | PFile FileStorage
  | PList "pyval list"

text \<open>\<^verbatim>\<open>'{}'.format(n)\<close> for an integer: its decimal numeral.\<close>

definition digit_char :: "nat \<Rightarrow> char" where
  "digit_char d = ''0123456789'' ! d"

fun str_nat :: "nat \<Rightarrow> string" where
  "str_nat n = (if n < 10 then [digit_char n] else str_nat (n div 10) @ [digit_char (n mod 10)])"

declare str_nat.simps [simp del]

definition str_int :: "int \<Rightarrow> string" where
  "str_int i = (if i < 0 then CHR ''-'' # str_nat (nat (- i)) else str_nat (nat i))"

text \<open>Truthiness of a value, as \<^verbatim>\<open>if x:\<close> tests it.\<close>

fun truthy :: "pyval \<Rightarrow> bool" where
  "truthy PNone = False"
| "truthy (PBool b) = b"
| "truthy (PInt n) = (n \<noteq> 0)"
| "truthy (PStr s) = (s \<noteq> [])"
| "truthy (PDate d) = True"
| "truthy (PFile f) = (fs_filename f \<noteq> [])"
| "truthy (PList xs) = (xs \<noteq> [])"

text \<open>\<^verbatim>\<open>s.startswith(p)\<close>, \<^verbatim>\<open>s.split(c)\<close> and \<^verbatim>\<open>s.lower()\<close> on ASCII strings.\<close>

definition startswith :: "string \<Rightarrow> string \<Rightarrow> bool" where
  "startswith s p = (take (length p) s = p)"

fun py_split :: "char \<Rightarrow> string \<Rightarrow> string list" where
  "py_split c [] = [[]]"
| "py_split c (x # xs) =
     (if x = c then [] # py_split c xs
      else (case py_split c xs of [] \<Rightarrow> [[x]] | p # ps \<Rightarrow> (x # p) # ps))"

definition lower_char :: "char \<Rightarrow> char" where
  "lower_char c =
     (case map_of (zip ''ABCDEFGHIJKLMNOPQRSTUVWXYZ'' ''abcdefghijklmnopqrstuvwxyz'') c of
        None \<Rightarrow> c
      | Some l \<Rightarrow> l)"

definition py_lower :: "string \<Rightarrow> string" where
  "py_lower s = map lower_char s"

text \<open>
  \<^verbatim>\<open>int(s)\<close> on a string: surrounding whitespace is stripped, one sign is allowed, and
  the rest must be one or more decimal digits; anything else raises \<^verbatim>\<open>ValueError\<close>
  (\<open>None\<close> here).
\<close>

definition is_space :: "char \<Rightarrow> bool" where
  "is_space c = (c \<in> set [CHR '' '', CHR 0x09, CHR 0x0A, CHR 0x0B, CHR 0x0C, CHR 0x0D])"

definition py_strip :: "string \<Rightarrow> string" where
  "py_strip s = rev (dropWhile is_space (rev (dropWhile is_space s)))"

definition digit_val :: "char \<Rightarrow> nat option" where
  "digit_val c =
     map_of [(CHR ''0'', 0), (CHR ''1'', 1), (CHR ''2'', 2), (CHR ''3'', 3), (CHR ''4'', 4),
             (CHR ''5'', 5), (CHR ''6'', 6), (CHR ''7'', 7), (CHR ''8'', 8), (CHR ''9'', 9)] c"

fun digits_val :: "nat \<Rightarrow> string \<Rightarrow> nat option" where
  "digits_val acc [] = Some acc"
| "digits_val acc (c # cs) =
     (case digit_val c of None \<Rightarrow> None | Some d \<Rightarrow> digits_val (10 * acc + d) cs)"

definition nat_of_digits :: "string \<Rightarrow> nat option" where
  "nat_of_digits s = (if s = [] then None else digits_val 0 s)"

definition py_int :: "string \<Rightarrow> int option" where
  "py_int s =
     (case py_strip s of
        [] \<Rightarrow> None
      | c # r \<Rightarrow>
          if c = CHR ''-'' then map_option (\<lambda>n. - int n) (nat_of_digits r)
          else if c = CHR ''+'' then map_option int (nat_of_digits r)
          else map_option int (nat_of_digits (c # r)))"

text \<open>\<^verbatim>\<open>os.path.join(a, b)\<close> on a POSIX system, for two components.\<close>

definition os_path_join :: "string \<Rightarrow> string \<Rightarrow> string" where
  "os_path_join a b =
     (if b \<noteq> [] \<and> hd b = CHR ''/'' then b
      else if a = [] \<or> last a = CHR ''/'' then a @ b
      else a @ ''/'' @ b)"

section \<open>Upload routing\<close>

text \<open>
  \<^verbatim>\<open>current_app.config\<close>, read by \<^verbatim>\<open>upload_document\<close>.
\<close>

record config =
  UPLOAD_S3 :: bool
  UPLOAD_DESTINATION :: string
  AWS_ACCESS_KEY_ID :: string
  AWS_SECRET_ACCESS_KEY :: string

text \<open>
  The functions \<^verbatim>\<open>upload_document\<close> imports: \<^verbatim>\<open>werkzeug.secure_filename\<close>,
  \<^verbatim>\<open>purchasing.utils.random_id\<close> (the string one call returns),
  \<^verbatim>\<open>purchasing.utils._get_aggressive_cache_headers\<close> and the storage client's
  \<^verbatim>\<open>generate_url\<close> (bucket name and key name to URL). Their code is not part of the
  module, so they are parameters of the model.
\<close>

record externals =
  secure_filename :: "string \<Rightarrow> string"
  random_id :: "nat \<Rightarrow> string"
  get_aggressive_cache_headers :: "string \<Rightarrow> (string \<times> string) list"
  generate_url :: "string \<Rightarrow> string \<Rightarrow> string"

text \<open>
  What an upload can change: the objects of each bucket of the object store, and the
  files of the local disk. The storage calls are input and output and can raise:
  \<^verbatim>\<open>document.save(filepath)\<close> raises \<^verbatim>\<open>IOError\<close> for a path that cannot be written (its
  directory is missing, say), and the calls on the object store raise when the bucket
  cannot be reached or refuses the write. \<open>disk_unwritable\<close> and \<open>s3_unavailable\<close> say
  for which paths and buckets that is so; the module handles neither exception, and the
  model has the call raise before anything is written.
\<close>

record s3_object =
  obj_contents :: string
  obj_headers :: "(string \<times> string) list"
  obj_acl :: string

record storage =
  buckets :: "string \<Rightarrow> string \<rightharpoonup> s3_object"
  disk :: "string \<rightharpoonup> string"
  s3_unavailable :: "string \<Rightarrow> bool"
  disk_unwritable :: "string \<Rightarrow> bool"

text \<open>
  \<^verbatim>\<open>_id = _id if _id else random_id(6)\<close>: an identifier that is \<^verbatim>\<open>None\<close> or \<^verbatim>\<open>0\<close> is
  falsy and is replaced by a random one. The result is what \<^verbatim>\<open>'{}'.format(_id)\<close> prints.
\<close>

definition effective_id :: "externals \<Rightarrow> int option \<Rightarrow> string" where
  "effective_id ext ident =
     (case ident of
        None \<Rightarrow> random_id ext 6
      | Some n \<Rightarrow> if n \<noteq> 0 then str_int n else random_id ext 6)"

text \<open>
  \<^verbatim>\<open>
  def upload_document(document, _id=None):
      filename = secure_filename(document.filename)
      _id = _id if _id else random_id(6)
      if document is None or filename == '':
          return None, None
      elif current_app.config.get('UPLOAD_S3'):
          conn, bucket = connect_to_s3(...)
          _document = bucket.new_key('opportunity-{}.pdf'.format(_id))
          aggressive_headers = _get_aggressive_cache_headers(_document)
          _document.set_contents_from_file(document, headers=aggressive_headers, replace=True)
          _document.set_acl('public-read')
          return _document.name, _document.generate_url(expires_in=0, query_auth=False)
      else:
          filepath = os.path.join(current_app.config['UPLOAD_DESTINATION'], filename)
          document.save(filepath)
          return filename, filepath
  \<close>
  The first statement reads \<^verbatim>\<open>document.filename\<close>; on \<^verbatim>\<open>None\<close> that raises
  \<^verbatim>\<open>AttributeError\<close>, before the test \<^verbatim>\<open>document is None\<close> is reached.
\<close>

definition upload_document ::
  "externals \<Rightarrow> config \<Rightarrow> storage \<Rightarrow> FileStorage option \<Rightarrow> int option
     \<Rightarrow> py_error + ((string option \<times> string option) \<times> storage)" where
  "upload_document ext cfg st document ident =
     (case document of
        None \<Rightarrow> Inl AttributeError
      | Some d \<Rightarrow>
          let filename = secure_filename ext (fs_filename d);
              eid = effective_id ext ident
          in if document = None \<or> filename = [] then Inr ((None, None), st)
             else if UPLOAD_S3 cfg then
               let name = ''opportunity-'' @ eid @ ''.pdf'';
                   aggressive_headers = get_aggressive_cache_headers ext name;
                   dest = UPLOAD_DESTINATION cfg;
                   obj = \<lparr>obj_contents = fs_stream d, obj_headers = aggressive_headers,
                          obj_acl = ''public-read''\<rparr>
               in if s3_unavailable st dest then Inl S3ResponseError
                  else Inr ((Some name, Some (generate_url ext dest name)),
                            st\<lparr>buckets := (buckets st)(dest := (buckets st dest)(name \<mapsto> obj))\<rparr>)
             else
               let filepath = os_path_join (UPLOAD_DESTINATION cfg) filename
               in if disk_unwritable st filepath then Inl IOError
                  else Inr ((Some filename, Some filepath),
                            st\<lparr>disk := (disk st)(filepath \<mapsto> fs_stream d)\<rparr>))"

section \<open>The relational store\<close>

text \<open>
  The four entities the handlers read and write. A row's columns are those the
  module and the data model name. An \<open>Opportunity\<close> is created and updated from a
  keyword mapping (\<^verbatim>\<open>Opportunity.create(**data)\<close>), so its columns are kept as the
  mapping from column name to value; \<open>is_public\<close> and \<open>planned_deadline\<close> read it.
\<close>

record Category =
  cat_id :: int
  cat_category :: string
  cat_subcategory :: string

record Vendor =
  vendor_id :: int
  vendor_email :: string
  business_name :: string
  vendor_categories :: "Category list"
  created_at :: int

record User =
  user_id :: int
  user_email :: pyval
  role_id :: int
  department :: pyval

record Opportunity =
  opp_id :: int
  opp_columns :: "string \<rightharpoonup> pyval"

record database =
  categories_tbl :: "Category list"
  vendors :: "Vendor list"
  users :: "User list"
  opportunities :: "Opportunity list"
  next_vendor_id :: int
  next_user_id :: int
  next_opportunity_id :: int

text \<open>\<^verbatim>\<open>opportunity.is_public\<close> as a condition, and the stored deadline (a day number).\<close>

definition is_public :: "Opportunity \<Rightarrow> bool" where
  "is_public opp = (case opp_columns opp ''is_public'' of None \<Rightarrow> False | Some v \<Rightarrow> truthy v)"

definition planned_deadline :: "Opportunity \<Rightarrow> int option" where
  "planned_deadline opp =
     (case opp_columns opp ''planned_deadline'' of Some (PDate d) \<Rightarrow> Some d | _ \<Rightarrow> None)"

text \<open>
  \<^verbatim>\<open>Category.query.get(i)\<close>, \<^verbatim>\<open>Opportunity.query.get(i)\<close>,
  \<^verbatim>\<open>Vendor.query.filter(Vendor.email == e).first()\<close> and
  \<^verbatim>\<open>User.query.filter(User.email == e).first()\<close>: the first row that matches, or
  \<^verbatim>\<open>None\<close>.
\<close>

definition Category_get :: "Category list \<Rightarrow> int \<Rightarrow> Category option" where
  "Category_get tbl i = find (\<lambda>c. cat_id c = i) tbl"

definition Opportunity_get :: "database \<Rightarrow> int \<Rightarrow> Opportunity option" where
  "Opportunity_get db i = find (\<lambda>opp. opp_id opp = i) (opportunities db)"

definition Vendor_first :: "database \<Rightarrow> string \<Rightarrow> Vendor option" where
  "Vendor_first db e = find (\<lambda>v. vendor_email v = e) (vendors db)"

definition User_first :: "database \<Rightarrow> pyval \<Rightarrow> User option" where
  "User_first db e = find (\<lambda>u. user_email u = e) (users db)"

text \<open>
  A row object that a query returned is changed in place: the first row satisfying the
  query's condition is the one rewritten.
\<close>

fun update_first :: "('a \<Rightarrow> bool) \<Rightarrow> 'a \<Rightarrow> 'a list \<Rightarrow> 'a list" where
  "update_first P y [] = []"
| "update_first P y (x # xs) = (if P x then y # xs else x # update_first P y xs)"

text \<open>
  Modelled from the spec: \<^verbatim>\<open>create\<close> and \<^verbatim>\<open>update\<close> of \<^verbatim>\<open>purchasing.database\<close> are
  not in the module. The spec says of them: "either update the existing record in place
  or insert a new one" and "Returns the persisted opportunity"; a placeholder contact is
  "auto-created". \<^verbatim>\<open>create\<close> inserts a row with a fresh id and the given columns;
  \<^verbatim>\<open>update\<close> sets each given column on the row and saves it (a row that is not yet
  stored is inserted).
\<close>

definition User_create :: "database \<Rightarrow> pyval \<Rightarrow> int \<Rightarrow> pyval \<Rightarrow> User \<times> database" where
  "User_create db e r d =
     (let u = \<lparr>user_id = next_user_id db, user_email = e, role_id = r, department = d\<rparr>
      in (u, db\<lparr>users := users db @ [u], next_user_id := next_user_id db + 1\<rparr>))"

definition Opportunity_create :: "database \<Rightarrow> (string \<rightharpoonup> pyval) \<Rightarrow> Opportunity \<times> database" where
  "Opportunity_create db kwargs =
     (let opp = \<lparr>opp_id = next_opportunity_id db, opp_columns = kwargs\<rparr>
      in (opp, db\<lparr>opportunities := opportunities db @ [opp],
                  next_opportunity_id := next_opportunity_id db + 1\<rparr>))"

definition Opportunity_update ::
  "database \<Rightarrow> Opportunity \<Rightarrow> (string \<rightharpoonup> pyval) \<Rightarrow> Opportunity \<times> database" where
  "Opportunity_update db opp kwargs =
     (let opp' = opp\<lparr>opp_columns := opp_columns opp ++ kwargs\<rparr>
      in (opp',
          if Opportunity_get db (opp_id opp) = None
          then db\<lparr>opportunities := opportunities db @ [opp']\<rparr>
          else db\<lparr>opportunities :=
                    update_first (\<lambda>r. opp_id r = opp_id opp) opp' (opportunities db)\<rparr>))"

section \<open>Opportunity build and update\<close>

text \<open>
  \<^verbatim>\<open>
  def build_opportunity(data, opportunity=None):
      contact_email = data.pop('contact_email')
      contact = User.query.filter(User.email == contact_email).first()
      if contact is None:
          contact = User().create(
              email=contact_email, role_id=2, department=data.get('department'))
      _id = opportunity.id if opportunity else None
      filename, filepath = upload_document(data.get('document', None), _id)
      data.update(dict(
          contact_id=contact.id, created_by=1,
          document=filename, document_href=filepath))
      if opportunity:
          opportunity = opportunity.update(**data)
      else:
          opportunity = Opportunity.create(**data)
      return opportunity
  \<close>
  The model returns the opportunity together with the mapping \<open>data\<close> as the call leaves
  it, the store and the upload store. When the call raises, the store is returned as it
  is at that moment: a placeholder contact is saved before the upload is tried.
\<close>

text \<open>\<^verbatim>\<open>data.get(k)\<close>: the value, or \<^verbatim>\<open>None\<close> for a missing key.\<close>

definition dict_get :: "(string \<rightharpoonup> pyval) \<Rightarrow> string \<Rightarrow> pyval" where
  "dict_get d k = (case d k of None \<Rightarrow> PNone | Some v \<Rightarrow> v)"

text \<open>
  The argument \<^verbatim>\<open>upload_document\<close> receives: \<^verbatim>\<open>None\<close>, or an uploaded file. Any other
  value has no attribute \<^verbatim>\<open>filename\<close>.
\<close>

definition as_document :: "pyval \<Rightarrow> py_error + FileStorage option" where
  "as_document v =
     (case v of PNone \<Rightarrow> Inr None | PFile f \<Rightarrow> Inr (Some f) | _ \<Rightarrow> Inl AttributeError)"

definition opt_str :: "string option \<Rightarrow> pyval" where
  "opt_str x = (case x of None \<Rightarrow> PNone | Some s \<Rightarrow> PStr s)"

definition resolve_contact :: "database \<Rightarrow> pyval \<Rightarrow> pyval \<Rightarrow> User \<times> database" where
  "resolve_contact db contact_email dept =
     (case User_first db contact_email of
        Some contact \<Rightarrow> (contact, db)
      | None \<Rightarrow> User_create db contact_email 2 dept)"

definition merge_data ::
  "(string \<rightharpoonup> pyval) \<Rightarrow> User \<Rightarrow> string option \<Rightarrow> string option \<Rightarrow> (string \<rightharpoonup> pyval)" where
  "merge_data data contact filename filepath =
     data(''contact_id'' \<mapsto> PInt (user_id contact), ''created_by'' \<mapsto> PInt 1,
          ''document'' \<mapsto> opt_str filename, ''document_href'' \<mapsto> opt_str filepath)"

definition build_opportunity ::
  "externals \<Rightarrow> config \<Rightarrow> database \<Rightarrow> storage \<Rightarrow> (string \<rightharpoonup> pyval) \<Rightarrow> Opportunity option
     \<Rightarrow> (py_error \<times> database) + (Opportunity \<times> (string \<rightharpoonup> pyval) \<times> database \<times> storage)" where
  "build_opportunity ext cfg db st data opportunity =
     (case data ''contact_email'' of
        None \<Rightarrow> Inl (KeyError ''contact_email'', db)
      | Some contact_email \<Rightarrow>
          let data1 = data(''contact_email'' := None);
              (contact, db1) = resolve_contact db contact_email (dict_get data1 ''department'');
              ident = map_option opp_id opportunity
          in (case as_document (dict_get data1 ''document'') of
                Inl e \<Rightarrow> Inl (e, db1)
              | Inr document \<Rightarrow>
                  (case upload_document ext cfg st document ident of
                     Inl e \<Rightarrow> Inl (e, db1)
                   | Inr ((filename, filepath), st1) \<Rightarrow>
                       let data2 = merge_data data1 contact filename filepath;
                           (opp', db2) =
                             (case opportunity of
                                Some opp \<Rightarrow> Opportunity_update db1 opp data2
                              | None \<Rightarrow> Opportunity_create db1 data2)
                       in Inr (opp', data2, db2, st1))))"

section \<open>Vendor signup\<close>

text \<open>
  The body of \<^verbatim>\<open>if form.validate_on_submit():\<close> in \<^verbatim>\<open>signup\<close>. The submitted fields
  \<^verbatim>\<open>request.form.iteritems()\<close> are a list of pairs in the order the iteration yields
  them.
  \<^verbatim>\<open>
  for k, v in request.form.iteritems():
      if not k.startswith('subcategories-'):
          continue
      else:
          subcat_id = int(k.split('-')[1])
          if v == 'on' and subcat_id not in subcats:
              subcats.add(subcat_id)
              subcat = Category.query.get(subcat_id)
              if subcat is None:
                  raise ValidationError('{} is not a valid choice!'.format(subcat))
              form_data['categories'].append(subcat)
  \<close>
  The message is formatted from \<^verbatim>\<open>subcat\<close>, which is \<^verbatim>\<open>None\<close> on that branch, and
  \<^verbatim>\<open>'{}'.format(None)\<close> is \<^verbatim>\<open>'None'\<close> (\<open>format_None\<close>).
\<close>

definition format_None :: string where
  "format_None = ''None''"

fun collect_subcategories ::
  "Category list \<Rightarrow> (string \<times> string) list \<Rightarrow> int set \<Rightarrow> Category list
     \<Rightarrow> py_error + Category list" where
  "collect_subcategories tbl [] subcats acc = Inr acc"
| "collect_subcategories tbl ((k, v) # rest) subcats acc =
     (if \<not> startswith k ''subcategories-'' then collect_subcategories tbl rest subcats acc
      else
        (case py_split CHR ''-'' k of
           _ # part # _ \<Rightarrow>
             (case py_int part of
                None \<Rightarrow> Inl ValueError
              | Some subcat_id \<Rightarrow>
                  if v = ''on'' \<and> subcat_id \<notin> subcats then
                    (case Category_get tbl subcat_id of
                       None \<Rightarrow>
                         Inl (ValidationError (format_None @ '' is not a valid choice!''))
                     | Some c \<Rightarrow>
                         collect_subcategories tbl rest (insert subcat_id subcats) (acc @ [c]))
                  else collect_subcategories tbl rest subcats acc)
         | _ \<Rightarrow> Inl IndexError))"

record signup_form =
  form_email :: string
  form_business_name :: string

datatype response = Redirect string | Render string

type_synonym flash = "string \<times> string"

text \<open>
  \<^verbatim>\<open>vendor_signup\<close> (the confirmation mail, \<^verbatim>\<open>purchasing.notifications\<close>) is a
  parameter: whether the mail was sent. \<open>now\<close> is the time the store stamps on a new row.
\<close>

definition signup_submit ::
  "(Vendor \<Rightarrow> Category list \<Rightarrow> bool) \<Rightarrow> int \<Rightarrow> database \<Rightarrow> signup_form \<Rightarrow> (string \<times> string) list
     \<Rightarrow> py_error + (response \<times> flash list \<times> database)" where
  "signup_submit vendor_signup now db form request_form =
     (let vendor = Vendor_first db (form_email form) in
      case collect_subcategories (categories_tbl db) request_form {} [] of
        Inl e \<Rightarrow> Inl e
      | Inr cats \<Rightarrow>
          (case vendor of
             Some v \<Rightarrow>
               let v' = v\<lparr>vendor_email := form_email form,
                          business_name := form_business_name form,
                          vendor_categories := cats\<rparr>
               in Inr (Redirect ''opportunities.index'',
                       [(''You are already signed up! Your profile was updated with this new information'',
                         ''alert-info'')],
                       db\<lparr>vendors :=
                            update_first (\<lambda>r. vendor_email r = form_email form) v' (vendors db)\<rparr>)
           | None \<Rightarrow>
               let v = \<lparr>vendor_id = next_vendor_id db, vendor_email = form_email form,
                        business_name = form_business_name form, vendor_categories = cats,
                        created_at = now\<rparr>;
                   confirmation_sent = vendor_signup v cats
               in Inr (Redirect ''opportunities.index'',
                       [if confirmation_sent
                        then (''Thank you for signing up! Check your email for more information'',
                              ''alert-success'')
                        else (''Uh oh, something went wrong. We are investigating.'',
                              ''alert-danger'')],
                       db\<lparr>vendors := vendors db @ [v],
                          next_vendor_id := next_vendor_id db + 1\<rparr>)))"

section \<open>Managing subscriptions\<close>

text \<open>
  \<^verbatim>\<open>
  def manage():
      form = UnsubscribeForm()
      form_subscriptions = []
      if form.validate_on_submit():
          email = form.data.get('email')
          vendor = Vendor.query.filter(Vendor.email == email).first()
          if vendor is None:
              form.email.errors = ['We could not find the email {}'.format(email)]
          if request.form.get('button', '').lower() == 'unsubscribe from checked':
              subscriptions = list(set([i.id for i in vendor.categories]).difference(form.subscriptions.data))
              vendor.categories = [Category.query.get(i) for i in subscriptions]
              db.session.commit()
              flash('Preferences updated!', 'alert-success')
          if vendor:
              for subscription in vendor.categories:
                  form_subscriptions.append((subscription.id, subscription.subcategory))
      form.subscriptions.choices = form_subscriptions
      return render_template('opportunities/manage.html', form=form)
  \<close>
  The test of the button is not under the test of \<^verbatim>\<open>vendor\<close>: with no vendor and the
  button pressed, \<^verbatim>\<open>vendor.categories\<close> raises \<^verbatim>\<open>AttributeError\<close>.
  \<open>valid\<close> is the result of \<^verbatim>\<open>form.validate_on_submit()\<close>. The order in which a Python
  set lists its members is not fixed by the language; the model lists them in the order
  of first occurrence, and the properties below speak of the set only.
\<close>

record unsubscribe_request =
  req_email :: string
  req_button :: "string option"
  req_subscriptions :: "int list"

record manage_page =
  email_errors :: "string list"
  subscription_choices :: "(int \<times> string) list"

definition set_difference :: "int list \<Rightarrow> int list \<Rightarrow> int list" where
  "set_difference xs ys = filter (\<lambda>i. i \<notin> set ys) (remdups xs)"

text \<open>
  \<^verbatim>\<open>[Category.query.get(i) for i in subscriptions]\<close>; a relationship collection refuses
  \<^verbatim>\<open>None\<close> as a member, so an id without a row makes the assignment raise.
\<close>

fun get_categories :: "Category list \<Rightarrow> int list \<Rightarrow> Category list option" where
  "get_categories tbl [] = Some []"
| "get_categories tbl (i # rest) =
     (case Category_get tbl i of
        None \<Rightarrow> None
      | Some c \<Rightarrow> map_option ((#) c) (get_categories tbl rest))"

definition manage_choices :: "Vendor option \<Rightarrow> (int \<times> string) list" where
  "manage_choices vendor =
     (case vendor of
        None \<Rightarrow> []
      | Some v \<Rightarrow> map (\<lambda>subscription. (cat_id subscription, cat_subcategory subscription))
                    (vendor_categories v))"

definition manage ::
  "database \<Rightarrow> bool \<Rightarrow> unsubscribe_request
     \<Rightarrow> py_error + (manage_page \<times> flash list \<times> database)" where
  "manage db valid req =
     (if valid then
        let email = req_email req;
            vendor = Vendor_first db email;
            errors = (if vendor = None then [''We could not find the email '' @ email] else [])
        in if py_lower (case req_button req of None \<Rightarrow> [] | Some b \<Rightarrow> b) = ''unsubscribe from checked''
           then
             (case vendor of
                None \<Rightarrow> Inl AttributeError
              | Some v \<Rightarrow>
                  let subscriptions =
                        set_difference (map cat_id (vendor_categories v)) (req_subscriptions req)
                  in (case get_categories (categories_tbl db) subscriptions of
                        None \<Rightarrow> Inl AttributeError
                      | Some cats \<Rightarrow>
                          let v' = v\<lparr>vendor_categories := cats\<rparr>
                          in Inr (\<lparr>email_errors = errors,
                                   subscription_choices = manage_choices (Some v')\<rparr>,
                                  [(''Preferences updated!'', ''alert-success'')],
                                  db\<lparr>vendors :=
                                       update_first (\<lambda>r. vendor_email r = email) v' (vendors db)\<rparr>)))
           else Inr (\<lparr>email_errors = errors, subscription_choices = manage_choices vendor\<rparr>,
                     [], db)
      else Inr (\<lparr>email_errors = [], subscription_choices = []\<rparr>, [], db))"

section \<open>Browsing and viewing opportunities\<close>

text \<open>
  \<^verbatim>\<open>
  def browse():
      active, upcoming = [], []
      opportunities = Opportunity.query.filter(
          Opportunity.planned_deadline >= datetime.date.today()).all()
      for opportunity in opportunities:
          if opportunity.is_public:
              if opportunity.is_published():
                  active.append(opportunity)
              else:
                  upcoming.append(opportunity)
      return render_template('opportunities/browse.html',
          opportunities=opportunities, active=active, upcoming=upcoming,
          current_user=current_user)
  \<close>
  \<^verbatim>\<open>is_published\<close> is a method of the model class, which is not in the module: it is a
  parameter. The page receives the two collections and, as \<^verbatim>\<open>opportunities\<close>, the whole
  query result.
\<close>

definition due_opportunities :: "int \<Rightarrow> database \<Rightarrow> Opportunity list" where
  "due_opportunities today db =
     filter (\<lambda>opp. case planned_deadline opp of None \<Rightarrow> False | Some d \<Rightarrow> today \<le> d)
       (opportunities db)"

fun partition_opportunities ::
  "(Opportunity \<Rightarrow> bool) \<Rightarrow> Opportunity list \<Rightarrow> Opportunity list \<Rightarrow> Opportunity list
     \<Rightarrow> Opportunity list \<times> Opportunity list" where
  "partition_opportunities is_published [] active upcoming = (active, upcoming)"
| "partition_opportunities is_published (opp # rest) active upcoming =
     (if is_public opp then
        (if is_published opp
         then partition_opportunities is_published rest (active @ [opp]) upcoming
         else partition_opportunities is_published rest active (upcoming @ [opp]))
      else partition_opportunities is_published rest active upcoming)"

record browse_page =
  page_opportunities :: "Opportunity list"
  page_active :: "Opportunity list"
  page_upcoming :: "Opportunity list"

definition browse :: "(Opportunity \<Rightarrow> bool) \<Rightarrow> int \<Rightarrow> database \<Rightarrow> browse_page" where
  "browse is_published today db =
     (let opps = due_opportunities today db;
          (active, upcoming) = partition_opportunities is_published opps [] []
      in \<lparr>page_opportunities = opps, page_active = active, page_upcoming = upcoming\<rparr>)"

text \<open>
  \<^verbatim>\<open>
  def detail(opportunity_id):
      opportunity = Opportunity.query.get(opportunity_id)
      if opportunity and opportunity.is_public:
          return render_template('opportunities/detail.html', opportunity=opportunity, ...)
      abort(404)
  \<close>
\<close>

definition detail :: "database \<Rightarrow> int \<Rightarrow> py_error + Opportunity" where
  "detail db opportunity_id =
     (case Opportunity_get db opportunity_id of
        None \<Rightarrow> Inl NotFound404
      | Some opportunity \<Rightarrow>
          if is_public opportunity then Inr opportunity else Inl NotFound404)"

section \<open>Concrete inputs\<close>

text \<open>
  A sanitiser that keeps letters, digits, dot, dash and underscore (what
  \<^verbatim>\<open>secure_filename\<close> keeps of an ASCII name without separators), and fixed values for
  the other imported functions.
\<close>

definition keep_safe_chars :: "string \<Rightarrow> string" where
  "keep_safe_chars s =
     filter (\<lambda>c. c \<in> set ''abcdefghijklmnopqrstuvwxyzABCDEFGHIJKLMNOPQRSTUVWXYZ0123456789._-'') s"

definition ext0 :: externals where
  "ext0 = \<lparr>secure_filename = keep_safe_chars,
           random_id = (\<lambda>n. take n ''k3x9qz''),
           get_aggressive_cache_headers = (\<lambda>k. [(''Cache-Control'', ''max-age=31536000'')]),
           generate_url = (\<lambda>b k. ''https://'' @ b @ ''.s3.amazonaws.com/'' @ k)\<rparr>"

definition cfg_s3 :: config where
  "cfg_s3 = \<lparr>UPLOAD_S3 = True, UPLOAD_DESTINATION = ''beacon-docs'',
             AWS_ACCESS_KEY_ID = ''id'', AWS_SECRET_ACCESS_KEY = ''secret''\<rparr>"

definition cfg_disk :: config where
  "cfg_disk = \<lparr>UPLOAD_S3 = False, UPLOAD_DESTINATION = ''/var/uploads'',
               AWS_ACCESS_KEY_ID = [], AWS_SECRET_ACCESS_KEY = []\<rparr>"

definition st0 :: storage where
  "st0 = \<lparr>buckets = (\<lambda>b. Map.empty), disk = Map.empty,
          s3_unavailable = (\<lambda>b. False), disk_unwritable = (\<lambda>p. False)\<rparr>"

text \<open>The same stores with the bucket out of reach and the upload directory missing.\<close>

definition st_down :: storage where
  "st_down = st0\<lparr>s3_unavailable := (\<lambda>b. True), disk_unwritable := (\<lambda>p. True)\<rparr>"

definition bid_pdf :: FileStorage where
  "bid_pdf = \<lparr>fs_filename = ''bid.pdf'', fs_stream = ''%PDF''\<rparr>"

definition notes_txt :: FileStorage where
  "notes_txt = \<lparr>fs_filename = ''notes.txt'', fs_stream = ''hello''\<rparr>"

definition cat_paving :: Category where
  "cat_paving = \<lparr>cat_id = 1, cat_category = ''Construction'', cat_subcategory = ''Paving''\<rparr>"

definition cat_roofing :: Category where
  "cat_roofing = \<lparr>cat_id = 2, cat_category = ''Construction'', cat_subcategory = ''Roofing''\<rparr>"

definition cat_catering :: Category where
  "cat_catering = \<lparr>cat_id = 3, cat_category = ''Food'', cat_subcategory = ''Catering''\<rparr>"

definition vendor_a :: Vendor where
  "vendor_a = \<lparr>vendor_id = 1, vendor_email = ''a@x.com'', business_name = ''A Paving'',
                vendor_categories = [cat_roofing, cat_catering], created_at = 0\<rparr>"

definition user_staff :: User where
  "user_staff = \<lparr>user_id = 1, user_email = PStr ''staff@city.gov'', role_id = 1,
                  department = PStr ''Public Works''\<rparr>"

text \<open>
  Four opportunities: public with the window open, public with the window not yet open,
  not public with the window open, and public with a deadline that has passed.
\<close>

definition opp_open :: Opportunity where
  "opp_open = \<lparr>opp_id = 1, opp_columns =
     [''is_public'' \<mapsto> PBool True, ''planned_deadline'' \<mapsto> PDate 20]\<rparr>"

definition opp_soon :: Opportunity where
  "opp_soon = \<lparr>opp_id = 2, opp_columns =
     [''is_public'' \<mapsto> PBool True, ''planned_deadline'' \<mapsto> PDate 30]\<rparr>"

definition opp_private :: Opportunity where
  "opp_private = \<lparr>opp_id = 3, opp_columns =
     [''is_public'' \<mapsto> PBool False, ''planned_deadline'' \<mapsto> PDate 25]\<rparr>"

definition opp_past :: Opportunity where
  "opp_past = \<lparr>opp_id = 4, opp_columns =
     [''is_public'' \<mapsto> PBool True, ''planned_deadline'' \<mapsto> PDate 5]\<rparr>"

definition window_open :: "Opportunity \<Rightarrow> bool" where
  "window_open opp = (opp_id opp = 1 \<or> opp_id opp = 3)"

definition db0 :: database where
  "db0 = \<lparr>categories_tbl = [cat_paving, cat_roofing, cat_catering],
          vendors = [vendor_a],
          users = [user_staff],
          opportunities = [opp_open, opp_soon, opp_private, opp_past],
          next_vendor_id = 2, next_user_id = 2, next_opportunity_id = 5\<rparr>"

text \<open>
  A signup form, two unsubscribe requests, and submitted fields in which one
  subcategory is checked under two field names.
\<close>

definition form_a :: signup_form where
  "form_a = \<lparr>form_email = ''a@x.com'', form_business_name = ''A Paving LLC''\<rparr>"

definition req_nobody :: unsubscribe_request where
  "req_nobody = \<lparr>req_email = ''nobody@x.com'', req_button = Some ''Unsubscribe from checked'',
                  req_subscriptions = [2]\<rparr>"

definition req_a :: unsubscribe_request where
  "req_a = \<lparr>req_email = ''a@x.com'', req_button = Some ''Unsubscribe from checked'',
             req_subscriptions = [2]\<rparr>"

definition fields_dup :: "(string \<times> string) list" where
  "fields_dup = [(''subcategories-1'', ''on''), (''csrf_token'', ''abc''),
                 (''subcategories-01'', ''on''), (''subcategories-3'', ''on''),
                 (''subcategories-2'', ''off'')]"

text \<open>
  Form data for \<^verbatim>\<open>build_opportunity\<close>: a new opportunity with a file, and the same with
  no file.
\<close>

definition data_new :: "string \<rightharpoonup> pyval" where
  "data_new = [''contact_email'' \<mapsto> PStr ''newbie@city.gov'', ''department'' \<mapsto> PStr ''Parks'',
               ''title'' \<mapsto> PStr ''Mowing'', ''is_public'' \<mapsto> PBool True,
               ''planned_deadline'' \<mapsto> PDate 40, ''document'' \<mapsto> PFile bid_pdf]"

definition data_nofile :: "string \<rightharpoonup> pyval" where
  "data_nofile = [''contact_email'' \<mapsto> PStr ''newbie@city.gov'', ''department'' \<mapsto> PStr ''Parks'',
                  ''title'' \<mapsto> PStr ''Mowing'', ''document'' \<mapsto> PNone]"

section \<open>Facts about the store's queries\<close>

lemma find_Some_holds: "find P xs = Some x \<Longrightarrow> P x \<and> x \<in> set xs"
  by (induction xs) (auto split: if_splits)

lemma Category_get_id: "Category_get tbl i = Some c \<Longrightarrow> cat_id c = i"
  by (auto simp: Category_get_def dest: find_Some_holds)

lemma Category_get_again:
  "Category_get tbl i = Some c \<Longrightarrow> Category_get tbl (cat_id c) = Some c"
  using Category_get_id by fastforce

lemma find_update_first:
  "find P xs = Some x \<Longrightarrow> P y \<Longrightarrow> find P (update_first P y xs) = Some y"
  by (induction xs) (auto split: if_splits)

lemma update_first_other:
  "z \<in> set (update_first P y xs) \<Longrightarrow> z = y \<or> z \<in> set xs"
  by (induction xs) (auto split: if_splits)

lemma length_update_first: "length (update_first P y xs) = length xs"
  by (induction xs) auto

lemma update_first_mem: "find P xs \<noteq> None \<Longrightarrow> y \<in> set (update_first P y xs)"
  by (induction xs) (auto split: if_splits)

lemma find_append_None:
  "find P xs = None \<Longrightarrow> find P (xs @ [y]) = (if P y then Some y else None)"
  by (induction xs) (auto split: if_splits)

lemma set_set_difference: "set (set_difference xs ys) = set xs - set ys"
  by (auto simp: set_difference_def)

lemma get_categories_ids: "get_categories tbl ids = Some cs \<Longrightarrow> map cat_id cs = ids"
  by (induction ids arbitrary: cs) (auto split: option.splits dest: Category_get_id)

lemma get_categories_total:
  "\<forall>i \<in> set ids. Category_get tbl i \<noteq> None \<Longrightarrow> \<exists>cs. get_categories tbl ids = Some cs"
  by (induction ids) (auto split: option.splits)

lemma get_categories_resolve:
  "get_categories tbl ids = Some cs \<Longrightarrow> c \<in> set cs \<Longrightarrow>
   Category_get tbl (cat_id c) = Some c"
  by (induction ids arbitrary: cs) (auto split: option.splits dest: Category_get_again)

lemmas inputs_defs = ext0_def cfg_s3_def cfg_disk_def st0_def bid_pdf_def notes_txt_def
  keep_safe_chars_def

section \<open>Upload routing: properties\<close>

text \<open>
  C1. Claimed: with no file (\<^verbatim>\<open>document is None\<close>), in both storage modes, the upload
  returns the empty result and records no file, rather than failing. The code reads
  \<^verbatim>\<open>document.filename\<close> before it tests \<^verbatim>\<open>document is None\<close>: for every configuration,
  store and identifier, the call with no file raises \<^verbatim>\<open>AttributeError\<close>.
\<close>

theorem upload_document_None_raises:
  "upload_document ext cfg st None ident = Inl AttributeError"
  by (simp add: upload_document_def)

theorem upload_document_None_raises_witness:
  "upload_document ext0 cfg_s3 st0 None None = Inl AttributeError
   \<and> upload_document ext0 cfg_disk st0 None (Some 7) = Inl AttributeError"
  using upload_document_None_raises [of ext0 cfg_s3 st0 None]
        upload_document_None_raises [of ext0 cfg_disk st0 "Some 7"]
  by simp

text \<open>
  The other half of the sentence holds: a file whose sanitised name is empty gives the
  empty result in both modes, and the upload store is unchanged.
\<close>

lemma upload_document_empty_filename:
  "secure_filename ext (fs_filename d) = [] \<Longrightarrow>
   upload_document ext cfg st (Some d) ident = Inr ((None, None), st)"
  by (simp add: upload_document_def)

text \<open>
  C10. Claimed: in object-storage mode the stored key is \<^verbatim>\<open>'opportunity-' + i + '.pdf'\<close>
  for every identifier \<open>i\<close>. The identifier \<^verbatim>\<open>0\<close> is falsy, so
  \<^verbatim>\<open>_id = _id if _id else random_id(6)\<close> replaces it: the file is stored under the key of
  the random identifier, and nothing is stored under \<^verbatim>\<open>'opportunity-0.pdf'\<close>.
\<close>

theorem upload_document_zero_identifier:
  "\<exists>url st'. upload_document ext0 cfg_s3 st0 (Some bid_pdf) (Some 0) =
        Inr ((Some ''opportunity-k3x9qz.pdf'', Some url), st')
      \<and> buckets st' ''beacon-docs'' ''opportunity-0.pdf'' = None"
  by (simp add: upload_document_def effective_id_def inputs_defs Let_def)

text \<open>
  C10, amended. For a file whose sanitised name \<open>filename\<close> is not empty, with
  \<open>key\<close> = \<^verbatim>\<open>'opportunity-' + id + '.pdf'\<close> where \<open>id\<close> is the supplied identifier printed in
  decimal when it is not \<^verbatim>\<open>0\<close>, and the random identifier when none or \<^verbatim>\<open>0\<close> is supplied:
  in object-storage mode, when the bucket can be reached, the call returns \<open>key\<close> and
  its URL, the bucket holds the file's contents under \<open>key\<close> with the cache headers
  and public-read access, and nothing else in the upload store changes; \<open>key\<close> does
  not depend on the file's name. In local-disk mode, when the path can be written, the
  call returns \<open>filename\<close> and the path \<^verbatim>\<open>os.path.join(UPLOAD_DESTINATION, filename)\<close>, the
  disk holds the contents at that path, and nothing else changes. When the store cannot
  be written the call raises and returns nothing.
\<close>

theorem upload_document_stored_name:
  assumes "filename = secure_filename ext (fs_filename d)" and "filename \<noteq> []"
    and "key = ''opportunity-'' @ effective_id ext ident @ ''.pdf''"
    and "dest = UPLOAD_DESTINATION cfg"
    and "path = os_path_join dest filename"
  shows "(UPLOAD_S3 cfg \<and> \<not> s3_unavailable st dest \<longrightarrow>
           (\<exists>st'. upload_document ext cfg st (Some d) ident =
                    Inr ((Some key, Some (generate_url ext dest key)), st')
              \<and> buckets st' dest key =
                   Some \<lparr>obj_contents = fs_stream d,
                         obj_headers = get_aggressive_cache_headers ext key,
                         obj_acl = ''public-read''\<rparr>
              \<and> (\<forall>b k. b \<noteq> dest \<or> k \<noteq> key \<longrightarrow> buckets st' b k = buckets st b k)
              \<and> disk st' = disk st))
       \<and> (\<not> UPLOAD_S3 cfg \<and> \<not> disk_unwritable st path \<longrightarrow>
           (\<exists>st'. upload_document ext cfg st (Some d) ident =
                    Inr ((Some filename, Some path), st')
              \<and> disk st' path = Some (fs_stream d)
              \<and> (\<forall>p. p \<noteq> path \<longrightarrow> disk st' p = disk st p)
              \<and> buckets st' = buckets st))
       \<and> (UPLOAD_S3 cfg \<and> s3_unavailable st dest \<longrightarrow>
             upload_document ext cfg st (Some d) ident = Inl S3ResponseError)
       \<and> (\<not> UPLOAD_S3 cfg \<and> disk_unwritable st path \<longrightarrow>
             upload_document ext cfg st (Some d) ident = Inl IOError)
       \<and> (\<forall>n. ident = Some n \<and> n \<noteq> 0 \<longrightarrow> effective_id ext ident = str_int n)
       \<and> (ident = None \<or> ident = Some 0 \<longrightarrow> effective_id ext ident = random_id ext 6)"
proof -
  have s3: "UPLOAD_S3 cfg \<and> \<not> s3_unavailable st dest \<longrightarrow>
           (\<exists>st'. upload_document ext cfg st (Some d) ident =
                    Inr ((Some key, Some (generate_url ext dest key)), st')
              \<and> buckets st' dest key =
                   Some \<lparr>obj_contents = fs_stream d,
                         obj_headers = get_aggressive_cache_headers ext key,
                         obj_acl = ''public-read''\<rparr>
              \<and> (\<forall>b k. b \<noteq> dest \<or> k \<noteq> key \<longrightarrow> buckets st' b k = buckets st b k)
              \<and> disk st' = disk st)"
    using assms by (auto simp: upload_document_def Let_def)
  have dk: "\<not> UPLOAD_S3 cfg \<and> \<not> disk_unwritable st path \<longrightarrow>
           (\<exists>st'. upload_document ext cfg st (Some d) ident =
                    Inr ((Some filename, Some path), st')
              \<and> disk st' path = Some (fs_stream d)
              \<and> (\<forall>p. p \<noteq> path \<longrightarrow> disk st' p = disk st p)
              \<and> buckets st' = buckets st)"
    using assms by (auto simp: upload_document_def Let_def)
  have f1: "UPLOAD_S3 cfg \<and> s3_unavailable st dest \<longrightarrow>
             upload_document ext cfg st (Some d) ident = Inl S3ResponseError"
    using assms by (simp add: upload_document_def Let_def)
  have f2: "\<not> UPLOAD_S3 cfg \<and> disk_unwritable st path \<longrightarrow>
             upload_document ext cfg st (Some d) ident = Inl IOError"
    using assms by (simp add: upload_document_def Let_def)
  have e1: "\<forall>n. ident = Some n \<and> n \<noteq> 0 \<longrightarrow> effective_id ext ident = str_int n"
    by (simp add: effective_id_def)
  have e2: "ident = None \<or> ident = Some 0 \<longrightarrow> effective_id ext ident = random_id ext 6"
    by (auto simp: effective_id_def)
  from s3 dk f1 f2 e1 e2 show ?thesis by (intro conjI)
qed

lemma effective_id_7: "effective_id ext0 (Some 7) = ''7''"
  by (simp add: effective_id_def str_int_def str_nat.simps digit_char_def)

theorem upload_document_stored_name_witness:
  "(\<exists>st'. upload_document ext0 cfg_s3 st0 (Some bid_pdf) (Some 7) =
        Inr ((Some ''opportunity-7.pdf'',
              Some ''https://beacon-docs.s3.amazonaws.com/opportunity-7.pdf''), st')
      \<and> map_option obj_contents (buckets st' ''beacon-docs'' ''opportunity-7.pdf'') = Some ''%PDF'')
   \<and> (\<exists>st'. upload_document ext0 cfg_s3 st0 (Some notes_txt) (Some 7) =
        Inr ((Some ''opportunity-7.pdf'',
              Some ''https://beacon-docs.s3.amazonaws.com/opportunity-7.pdf''), st')
      \<and> map_option obj_contents (buckets st' ''beacon-docs'' ''opportunity-7.pdf'') = Some ''hello'')
   \<and> (\<exists>st'. upload_document ext0 cfg_disk st0 (Some notes_txt) (Some 7) =
        Inr ((Some ''notes.txt'', Some ''/var/uploads/notes.txt''), st')
      \<and> disk st' ''/var/uploads/notes.txt'' = Some ''hello'')
   \<and> upload_document ext0 cfg_s3 st_down (Some bid_pdf) (Some 7) = Inl S3ResponseError
   \<and> upload_document ext0 cfg_disk st_down (Some bid_pdf) (Some 7) = Inl IOError"
proof -
  have b: "''bid.pdf'' = secure_filename ext0 (fs_filename bid_pdf)"
    and n: "''notes.txt'' = secure_filename ext0 (fs_filename notes_txt)"
    by (simp_all add: inputs_defs)
  have k: "''opportunity-7.pdf'' = ''opportunity-'' @ effective_id ext0 (Some 7) @ ''.pdf''"
    by (simp add: effective_id_7)
  have d3: "''beacon-docs'' = UPLOAD_DESTINATION cfg_s3"
    and dd: "''/var/uploads'' = UPLOAD_DESTINATION cfg_disk"
    by (simp_all add: inputs_defs)
  have p3b: "''beacon-docs/bid.pdf'' = os_path_join ''beacon-docs'' ''bid.pdf''"
    and p3n: "''beacon-docs/notes.txt'' = os_path_join ''beacon-docs'' ''notes.txt''"
    and pdb: "''/var/uploads/bid.pdf'' = os_path_join ''/var/uploads'' ''bid.pdf''"
    and pdn: "''/var/uploads/notes.txt'' = os_path_join ''/var/uploads'' ''notes.txt''"
    by (simp_all add: os_path_join_def)
  have c: "UPLOAD_S3 cfg_s3" "\<not> UPLOAD_S3 cfg_disk"
    "\<not> s3_unavailable st0 ''beacon-docs''" "\<not> disk_unwritable st0 ''/var/uploads/notes.txt''"
    "s3_unavailable st_down ''beacon-docs''" "disk_unwritable st_down ''/var/uploads/bid.pdf''"
    "fs_stream bid_pdf = ''%PDF''" "fs_stream notes_txt = ''hello''"
    "generate_url ext0 ''beacon-docs'' ''opportunity-7.pdf''
       = ''https://beacon-docs.s3.amazonaws.com/opportunity-7.pdf''"
    by (simp_all add: inputs_defs st_down_def)
  from upload_document_stored_name [OF b _ k d3 p3b, of st0] c
  have 1: "\<exists>st'. upload_document ext0 cfg_s3 st0 (Some bid_pdf) (Some 7) =
        Inr ((Some ''opportunity-7.pdf'',
              Some ''https://beacon-docs.s3.amazonaws.com/opportunity-7.pdf''), st')
      \<and> map_option obj_contents (buckets st' ''beacon-docs'' ''opportunity-7.pdf'') = Some ''%PDF''"
    by fastforce
  from upload_document_stored_name [OF n _ k d3 p3n, of st0] c
  have 2: "\<exists>st'. upload_document ext0 cfg_s3 st0 (Some notes_txt) (Some 7) =
        Inr ((Some ''opportunity-7.pdf'',
              Some ''https://beacon-docs.s3.amazonaws.com/opportunity-7.pdf''), st')
      \<and> map_option obj_contents (buckets st' ''beacon-docs'' ''opportunity-7.pdf'') = Some ''hello''"
    by fastforce
  from upload_document_stored_name [OF n _ k dd pdn, of st0] c
  have 3: "\<exists>st'. upload_document ext0 cfg_disk st0 (Some notes_txt) (Some 7) =
        Inr ((Some ''notes.txt'', Some ''/var/uploads/notes.txt''), st')
      \<and> disk st' ''/var/uploads/notes.txt'' = Some ''hello''"
    by fastforce
  from upload_document_stored_name [OF b _ k d3 p3b, of st_down] c
  have 4: "upload_document ext0 cfg_s3 st_down (Some bid_pdf) (Some 7) = Inl S3ResponseError"
    by simp
  from upload_document_stored_name [OF b _ k dd pdb, of st_down] c
  have 5: "upload_document ext0 cfg_disk st_down (Some bid_pdf) (Some 7) = Inl IOError"
    by simp
  from 1 2 3 4 5 show ?thesis by (intro conjI)
qed

section \<open>Browsing and viewing: properties\<close>

lemma partition_opportunities_filter:
  "partition_opportunities p xs a u =
     (a @ filter (\<lambda>opp. is_public opp \<and> p opp) xs,
      u @ filter (\<lambda>opp. is_public opp \<and> \<not> p opp) xs)"
  by (induction xs arbitrary: a u) auto

lemma browse_filters:
  "page_active (browse p today db) =
     filter (\<lambda>opp. is_public opp \<and> p opp) (due_opportunities today db)"
  "page_upcoming (browse p today db) =
     filter (\<lambda>opp. is_public opp \<and> \<not> p opp) (due_opportunities today db)"
  "page_opportunities (browse p today db) = due_opportunities today db"
  by (simp_all add: browse_def partition_opportunities_filter Let_def)

lemma db0_due: "due_opportunities 10 db0 = [opp_open, opp_soon, opp_private]"
  by (simp add: due_opportunities_def db0_def planned_deadline_def
      opp_open_def opp_soon_def opp_private_def opp_past_def)

lemma db0_public:
  "is_public opp_open" "is_public opp_soon" "\<not> is_public opp_private"
  by (simp_all add: is_public_def opp_open_def opp_soon_def opp_private_def)

lemma db0_window:
  "window_open opp_open" "\<not> window_open opp_soon" "window_open opp_private"
  by (simp_all add: window_open_def opp_open_def opp_soon_def opp_private_def)

lemma db0_get:
  "Opportunity_get db0 3 = Some opp_private" "Opportunity_get db0 99 = None"
  by (simp_all add: Opportunity_get_def db0_def
      opp_open_def opp_soon_def opp_private_def opp_past_def)

text \<open>
  C5. Of the opportunities whose deadline is today or later, every public one with
  \<^verbatim>\<open>is_published()\<close> true is in \<open>active\<close>, every public one with it false is in
  \<open>upcoming\<close>, and the two collections share no opportunity.
\<close>

theorem browse_partition:
  "(\<forall>opp \<in> set (due_opportunities today db).
       (is_public opp \<and> is_published opp
          \<longrightarrow> opp \<in> set (page_active (browse is_published today db)))
     \<and> (is_public opp \<and> \<not> is_published opp
          \<longrightarrow> opp \<in> set (page_upcoming (browse is_published today db))))
   \<and> set (page_active (browse is_published today db))
       \<inter> set (page_upcoming (browse is_published today db)) = {}"
  by (auto simp: browse_filters)

theorem browse_partition_witness:
  "opp_open \<in> set (page_active (browse window_open 10 db0))
   \<and> opp_soon \<in> set (page_upcoming (browse window_open 10 db0))
   \<and> set (page_active (browse window_open 10 db0))
       \<inter> set (page_upcoming (browse window_open 10 db0)) = {}"
  using browse_partition [of 10 db0 window_open] db0_public db0_window
  by (simp add: db0_due)

text \<open>
  C6. An opportunity that is not public is in neither \<open>active\<close> nor \<open>upcoming\<close>,
  whatever \<^verbatim>\<open>is_published()\<close> says of it, and looking it up by its id gives the same
  not-found outcome as looking up an id that has no opportunity.
\<close>

theorem private_opportunity_hidden:
  assumes "\<not> is_public opp"
  shows "opp \<notin> set (page_active (browse is_published today db))
       \<and> opp \<notin> set (page_upcoming (browse is_published today db))
       \<and> (\<forall>i j. Opportunity_get db i = Some opp \<and> Opportunity_get db j = None
             \<longrightarrow> detail db i = Inl NotFound404 \<and> detail db j = detail db i)"
  using assms by (auto simp: browse_filters detail_def)

theorem private_opportunity_hidden_witness:
  "window_open opp_private
   \<and> opp_private \<notin> set (page_active (browse window_open 10 db0))
   \<and> opp_private \<notin> set (page_upcoming (browse window_open 10 db0))
   \<and> detail db0 3 = Inl NotFound404 \<and> detail db0 99 = detail db0 3"
  using private_opportunity_hidden [of opp_private window_open 10 db0]
    db0_public db0_window db0_get
  by blast

lemmas store_defs = db0_def cat_paving_def cat_roofing_def cat_catering_def vendor_a_def
  user_staff_def form_a_def

lemmas parse_defs = startswith_def py_int_def py_strip_def is_space_def nat_of_digits_def
  digit_val_def Category_get_def

section \<open>Vendor signup: properties\<close>

lemma collect_subcategories_message:
  "collect_subcategories tbl rf subcats acc = Inl (ValidationError msg) \<Longrightarrow>
   msg = ''None is not a valid choice!''"
proof (induction tbl rf subcats acc rule: collect_subcategories.induct)
  case (1 tbl subcats acc)
  then show ?case by simp
next
  case (2 tbl k v rest subcats acc)
  show ?case
  proof (cases "startswith k ''subcategories-''")
    case False
    with 2 show ?thesis by simp
  next
    case True
    then obtain x part ys i where sp: "py_split CHR ''-'' k = x # part # ys"
      and pi: "py_int part = Some i"
      using "2.prems" by (auto split: list.splits option.splits)
    show ?thesis
    proof (cases "v = ''on'' \<and> i \<notin> subcats")
      case False
      with True sp pi "2.prems" "2.IH"(3)[OF _ sp _ pi] show ?thesis by auto
    next
      case on: True
      show ?thesis
      proof (cases "Category_get tbl i")
        case None
        with True sp pi on "2.prems" show ?thesis by (simp add: format_None_def)
      next
        case (Some c)
        with True sp pi on "2.prems" "2.IH"(2)[OF _ sp _ pi _ Some] show ?thesis by simp
      qed
    qed
  qed
qed

lemma collect_unknown_7:
  "collect_subcategories (categories_tbl db0) [(''subcategories-7'', ''on'')] {} [] =
     Inl (ValidationError (format_None @ '' is not a valid choice!''))"
  by (simp add: store_defs parse_defs)

text \<open>
  C3. Claimed: a checked subcategory identifier that resolves to no Category makes signup
  fail validation with a message that names the identifier. The code formats the message
  from \<^verbatim>\<open>subcat\<close>, the result of the failed lookup, not from \<^verbatim>\<open>subcat_id\<close>: whenever
  signup raises \<^verbatim>\<open>ValidationError\<close>, the message is \<^verbatim>\<open>'None is not a valid choice!'\<close>,
  whatever the identifier was.
\<close>

theorem signup_invalid_subcategory_message:
  "signup_submit vendor_signup now db form request_form = Inl (ValidationError msg) \<Longrightarrow>
   msg = ''None is not a valid choice!''"
  by (auto simp: signup_submit_def Let_def split: sum.splits option.splits
      dest: collect_subcategories_message)

theorem signup_invalid_subcategory_message_witness:
  "signup_submit (\<lambda>v cs. True) 0 db0 form_a [(''subcategories-7'', ''on'')] =
     Inl (ValidationError ''None is not a valid choice!'')"
proof -
  have ev: "signup_submit (\<lambda>v cs. True) 0 db0 form_a [(''subcategories-7'', ''on'')] =
     Inl (ValidationError (format_None @ '' is not a valid choice!''))"
    by (simp add: signup_submit_def collect_unknown_7 del: collect_subcategories.simps)
  from signup_invalid_subcategory_message [OF ev] ev show ?thesis by simp
qed

lemma collect_subcategories_distinct:
  "collect_subcategories tbl rf subcats acc = Inr cats \<Longrightarrow>
   distinct (map cat_id acc) \<Longrightarrow> set (map cat_id acc) \<subseteq> subcats \<Longrightarrow>
   distinct (map cat_id cats)"
proof (induction tbl rf subcats acc rule: collect_subcategories.induct)
  case (1 tbl subcats acc)
  then show ?case by simp
next
  case (2 tbl k v rest subcats acc)
  show ?case
  proof (cases "startswith k ''subcategories-''")
    case False
    with 2 show ?thesis by simp
  next
    case True
    then obtain x part ys i where sp: "py_split CHR ''-'' k = x # part # ys"
      and pi: "py_int part = Some i"
      using "2.prems"(1) by (auto split: list.splits option.splits)
    show ?thesis
    proof (cases "v = ''on'' \<and> i \<notin> subcats")
      case False
      with True sp pi "2.prems" "2.IH"(3)[OF _ sp _ pi] show ?thesis by auto
    next
      case on: True
      then obtain c where c: "Category_get tbl i = Some c"
        using True sp pi "2.prems"(1) by (auto split: option.splits)
      have "cat_id c = i" using c by (rule Category_get_id)
      with on "2.prems" have d: "distinct (map cat_id (acc @ [c]))"
        and s: "set (map cat_id (acc @ [c])) \<subseteq> insert i subcats" by auto
      have "collect_subcategories tbl rest (insert i subcats) (acc @ [c]) = Inr cats"
        using True sp pi on c "2.prems"(1) by simp
      with "2.IH"(2)[OF _ sp _ pi _ c] True on d s show ?thesis by simp
    qed
  qed
qed

lemma signup_submit_vendor:
  assumes "signup_submit vs now db form rf = Inr (resp, fl, db')"
  shows "\<exists>v. Vendor_first db' (form_email form) = Some v
           \<and> collect_subcategories (categories_tbl db) rf {} [] = Inr (vendor_categories v)"
proof -
  from assms obtain cats where cats: "collect_subcategories (categories_tbl db) rf {} [] = Inr cats"
    by (auto simp: signup_submit_def Let_def split: sum.splits)
  show ?thesis
  proof (cases "Vendor_first db (form_email form)")
    case None
    with assms cats show ?thesis
      by (auto simp: signup_submit_def Let_def Vendor_first_def find_append_None)
  next
    case (Some v)
    with assms cats show ?thesis
      by (auto simp: signup_submit_def Let_def Vendor_first_def find_update_first)
  qed
qed

lemma collect_dup:
  "collect_subcategories (categories_tbl db0) fields_dup {} [] = Inr [cat_paving, cat_catering]"
  by (simp add: fields_dup_def store_defs parse_defs)

text \<open>
  C7. When signup returns, the vendor stored under the submitted email has as its
  categories the list the loop collected, and no Category id occurs in it twice, however
  many submitted fields name the same identifier.
\<close>

theorem signup_categories_distinct:
  assumes "signup_submit vendor_signup now db form request_form = Inr (resp, fl, db')"
  shows "\<exists>v. Vendor_first db' (form_email form) = Some v
           \<and> collect_subcategories (categories_tbl db) request_form {} [] = Inr (vendor_categories v)
           \<and> distinct (map cat_id (vendor_categories v))"
proof -
  from signup_submit_vendor [OF assms] obtain v where
    v: "Vendor_first db' (form_email form) = Some v"
    and c: "collect_subcategories (categories_tbl db) request_form {} [] = Inr (vendor_categories v)"
    by blast
  from collect_subcategories_distinct [OF c] have "distinct (map cat_id (vendor_categories v))"
    by simp
  with v c show ?thesis by blast
qed

theorem signup_categories_distinct_witness:
  "case signup_submit (\<lambda>v cs. True) 0 db0 form_a fields_dup of
     Inl e \<Rightarrow> False
   | Inr (resp, fl, db') \<Rightarrow>
       (\<exists>v. Vendor_first db' ''a@x.com'' = Some v \<and> map cat_id (vendor_categories v) = [1, 3])"
proof -
  have "\<exists>resp fl db'. signup_submit (\<lambda>v cs. True) 0 db0 form_a fields_dup = Inr (resp, fl, db')"
    by (cases "Vendor_first db0 (form_email form_a)")
       (simp_all add: signup_submit_def collect_dup Let_def del: collect_subcategories.simps)
  then obtain resp fl db' where
    ev: "signup_submit (\<lambda>v cs. True) 0 db0 form_a fields_dup = Inr (resp, fl, db')"
    by blast
  from signup_categories_distinct [OF ev] obtain v where
    f: "Vendor_first db' (form_email form_a) = Some v"
    and c: "collect_subcategories (categories_tbl db0) fields_dup {} [] = Inr (vendor_categories v)"
    by blast
  from c have "vendor_categories v = [cat_paving, cat_catering]"
    by (simp add: collect_dup)
  with f have "Vendor_first db' ''a@x.com'' = Some v \<and> map cat_id (vendor_categories v) = [1, 3]"
    by (simp add: form_a_def cat_paving_def cat_catering_def)
  with ev show ?thesis by auto
qed

section \<open>Managing subscriptions: properties\<close>

lemma button_pressed: "py_lower ''Unsubscribe from checked'' = ''unsubscribe from checked''"
  by (simp add: py_lower_def lower_char_def)

text \<open>
  C2. Claimed: when the email matches no vendor, \<^verbatim>\<open>manage\<close> reports the error on the form
  and renders it, also when the button "unsubscribe from checked" was pressed. The code
  tests the button outside the test of \<^verbatim>\<open>vendor\<close>: with a valid form, no matching vendor
  and the button pressed, it reads \<^verbatim>\<open>vendor.categories\<close> of \<^verbatim>\<open>None\<close> and raises
  \<^verbatim>\<open>AttributeError\<close>.
\<close>

theorem manage_unknown_email_unsubscribe_raises:
  assumes "valid" and "Vendor_first db (req_email req) = None"
    and "req_button req = Some b" and "py_lower b = ''unsubscribe from checked''"
  shows "manage db valid req = Inl AttributeError"
  using assms by (simp add: manage_def Let_def)

theorem manage_unknown_email_unsubscribe_raises_witness:
  "Vendor_first db0 ''nobody@x.com'' = None \<and> manage db0 True req_nobody = Inl AttributeError"
proof -
  have n: "Vendor_first db0 (req_email req_nobody) = None"
    by (simp add: Vendor_first_def store_defs req_nobody_def)
  have b: "req_button req_nobody = Some ''Unsubscribe from checked''"
    by (simp add: req_nobody_def)
  from manage_unknown_email_unsubscribe_raises [OF TrueI n b button_pressed] n
  show ?thesis by (simp add: req_nobody_def)
qed

text \<open>
  Without the button the claim holds: the form is rendered with the error and the store
  is unchanged.
\<close>

lemma manage_unknown_email_renders:
  assumes "valid" and "Vendor_first db (req_email req) = None"
    and "py_lower (case req_button req of None \<Rightarrow> [] | Some b \<Rightarrow> b) \<noteq> ''unsubscribe from checked''"
  shows "manage db valid req =
           Inr (\<lparr>email_errors = [''We could not find the email '' @ req_email req],
                 subscription_choices = []\<rparr>, [], db)"
  using assms by (simp add: manage_def Let_def manage_choices_def)

lemma manage_unsubscribe_step:
  assumes "valid" and v: "Vendor_first db (req_email req) = Some v"
    and b: "req_button req = Some b" "py_lower b = ''unsubscribe from checked''"
    and fk: "\<forall>c \<in> set (vendor_categories v). Category_get (categories_tbl db) (cat_id c) \<noteq> None"
  shows "\<exists>cats page fl.
           get_categories (categories_tbl db)
             (set_difference (map cat_id (vendor_categories v)) (req_subscriptions req)) = Some cats
         \<and> manage db valid req =
             Inr (page, fl,
                  db\<lparr>vendors := update_first (\<lambda>r. vendor_email r = req_email req)
                                  (v\<lparr>vendor_categories := cats\<rparr>) (vendors db)\<rparr>)"
proof -
  let ?ids = "set_difference (map cat_id (vendor_categories v)) (req_subscriptions req)"
  have "\<forall>i \<in> set ?ids. Category_get (categories_tbl db) i \<noteq> None"
    using fk by (auto simp: set_set_difference)
  then obtain cats where cats: "get_categories (categories_tbl db) ?ids = Some cats"
    using get_categories_total by blast
  with assms show ?thesis by (simp add: manage_def Let_def)
qed

lemma manage_unsubscribe_once:
  assumes "valid" and v: "Vendor_first db (req_email req) = Some v"
    and b: "req_button req = Some b" "py_lower b = ''unsubscribe from checked''"
    and fk: "\<forall>c \<in> set (vendor_categories v). Category_get (categories_tbl db) (cat_id c) \<noteq> None"
  shows "\<exists>page fl db' v'.
           manage db valid req = Inr (page, fl, db')
         \<and> Vendor_first db' (req_email req) = Some v'
         \<and> categories_tbl db' = categories_tbl db
         \<and> set (map cat_id (vendor_categories v'))
             = set (map cat_id (vendor_categories v)) - set (req_subscriptions req)
         \<and> (\<forall>c \<in> set (vendor_categories v'). Category_get (categories_tbl db') (cat_id c) \<noteq> None)"
proof -
  let ?ids = "set_difference (map cat_id (vendor_categories v)) (req_subscriptions req)"
  from manage_unsubscribe_step [OF assms] obtain cats page fl where
    cats: "get_categories (categories_tbl db) ?ids = Some cats"
    and m: "manage db valid req =
             Inr (page, fl,
                  db\<lparr>vendors := update_first (\<lambda>r. vendor_email r = req_email req)
                                  (v\<lparr>vendor_categories := cats\<rparr>) (vendors db)\<rparr>)"
    by blast
  let ?v' = "v\<lparr>vendor_categories := cats\<rparr>"
  let ?db' = "db\<lparr>vendors := update_first (\<lambda>r. vendor_email r = req_email req) ?v' (vendors db)\<rparr>"
  have e: "vendor_email v = req_email req"
    using v by (auto simp: Vendor_first_def dest: find_Some_holds)
  have f: "Vendor_first ?db' (req_email req) = Some ?v'"
    using v e by (simp add: Vendor_first_def find_update_first)
  have ids: "map cat_id cats = ?ids" using cats by (rule get_categories_ids)
  have s: "set (map cat_id (vendor_categories ?v'))
             = set (map cat_id (vendor_categories v)) - set (req_subscriptions req)"
    using ids by (simp add: set_set_difference)
  have r: "\<forall>c \<in> set (vendor_categories ?v'). Category_get (categories_tbl ?db') (cat_id c) \<noteq> None"
    using get_categories_resolve [OF cats] by simp
  from m f s r show ?thesis by force
qed

text \<open>
  C4. For a valid request with the button pressed, a vendor found under the email and
  every one of its categories present in the Category table: \<^verbatim>\<open>manage\<close> returns, the
  vendor's set of category ids afterwards is the set before minus the requested removals,
  and the same request run again on the resulting store returns and leaves that set as
  it is.
\<close>

theorem manage_unsubscribe_set_difference:
  assumes "valid" and v: "Vendor_first db (req_email req) = Some v"
    and b: "req_button req = Some b" "py_lower b = ''unsubscribe from checked''"
    and fk: "\<forall>c \<in> set (vendor_categories v). Category_get (categories_tbl db) (cat_id c) \<noteq> None"
  shows "\<exists>page fl db' v'.
           manage db valid req = Inr (page, fl, db')
         \<and> Vendor_first db' (req_email req) = Some v'
         \<and> set (map cat_id (vendor_categories v'))
             = set (map cat_id (vendor_categories v)) - set (req_subscriptions req)
         \<and> (\<exists>page2 fl2 db'' v''.
               manage db' valid req = Inr (page2, fl2, db'')
             \<and> Vendor_first db'' (req_email req) = Some v''
             \<and> set (map cat_id (vendor_categories v'')) = set (map cat_id (vendor_categories v')))"
proof -
  from manage_unsubscribe_once [OF assms] obtain page fl db' v' where
    m1: "manage db valid req = Inr (page, fl, db')"
    and v1: "Vendor_first db' (req_email req) = Some v'"
    and s1: "set (map cat_id (vendor_categories v'))
               = set (map cat_id (vendor_categories v)) - set (req_subscriptions req)"
    and fk1: "\<forall>c \<in> set (vendor_categories v'). Category_get (categories_tbl db') (cat_id c) \<noteq> None"
    by blast
  from manage_unsubscribe_once [OF assms(1) v1 b fk1] obtain page2 fl2 db'' v'' where
    m2: "manage db' valid req = Inr (page2, fl2, db'')"
    and v2: "Vendor_first db'' (req_email req) = Some v''"
    and s2: "set (map cat_id (vendor_categories v''))
               = set (map cat_id (vendor_categories v')) - set (req_subscriptions req)"
    by blast
  from s1 s2 have "set (map cat_id (vendor_categories v'')) = set (map cat_id (vendor_categories v'))"
    by auto
  with m1 v1 s1 m2 v2 show ?thesis by blast
qed

theorem manage_unsubscribe_set_difference_witness:
  "\<exists>page fl db' v'.
       manage db0 True req_a = Inr (page, fl, db')
     \<and> Vendor_first db' ''a@x.com'' = Some v'
     \<and> set (map cat_id (vendor_categories v')) = {3}
     \<and> (\<exists>page2 fl2 db'' v''.
           manage db' True req_a = Inr (page2, fl2, db'')
         \<and> Vendor_first db'' ''a@x.com'' = Some v''
         \<and> set (map cat_id (vendor_categories v'')) = {3})"
proof -
  have v: "Vendor_first db0 (req_email req_a) = Some vendor_a"
    by (simp add: Vendor_first_def store_defs req_a_def)
  have b: "req_button req_a = Some ''Unsubscribe from checked''"
    by (simp add: req_a_def)
  have fk: "\<forall>c \<in> set (vendor_categories vendor_a).
              Category_get (categories_tbl db0) (cat_id c) \<noteq> None"
    by (simp add: store_defs Category_get_def)
  have d: "set (map cat_id (vendor_categories vendor_a)) - set (req_subscriptions req_a) = {3}"
    by (auto simp: store_defs req_a_def)
  have e: "req_email req_a = ''a@x.com''" by (simp add: req_a_def)
  from manage_unsubscribe_set_difference [OF TrueI v b button_pressed fk]
  show ?thesis unfolding d e by metis
qed

section \<open>Opportunity build and update: properties\<close>

lemma resolve_contact_cases:
  "resolve_contact db ce dept = (contact, db1) \<Longrightarrow>
   (case User_first db ce of
      Some u \<Rightarrow> contact = u \<and> db1 = db
    | None \<Rightarrow> user_email contact = ce \<and> role_id contact = 2 \<and> department contact = dept
              \<and> users db1 = users db @ [contact])"
  by (auto simp: resolve_contact_def User_create_def Let_def split: option.splits)

lemma resolve_contact_opportunities:
  "resolve_contact db ce dept = (contact, db1) \<Longrightarrow>
   opportunities db1 = opportunities db \<and> next_opportunity_id db1 = next_opportunity_id db"
  by (auto simp: resolve_contact_def User_create_def Let_def split: option.splits)

lemma resolve_contact_member:
  "resolve_contact db ce dept = (contact, db1) \<Longrightarrow> contact \<in> set (users db1)"
  by (auto simp: resolve_contact_def User_create_def User_first_def Let_def
      split: option.splits dest: find_Some_holds)

lemma Opportunity_update_persisted:
  "Opportunity_update db opp kwargs = (opp', db') \<Longrightarrow>
   opp' = opp\<lparr>opp_columns := opp_columns opp ++ kwargs\<rparr>
   \<and> opp' \<in> set (opportunities db')
   \<and> users db' = users db
   \<and> (Opportunity_get db (opp_id opp) \<noteq> None \<longrightarrow>
        length (opportunities db') = length (opportunities db))"
  by (auto simp: Opportunity_update_def Opportunity_get_def Let_def length_update_first
      update_first_mem split: if_splits)

lemma Opportunity_create_persisted:
  "Opportunity_create db kwargs = (opp', db') \<Longrightarrow>
   opp' = \<lparr>opp_id = next_opportunity_id db, opp_columns = kwargs\<rparr>
   \<and> opportunities db' = opportunities db @ [opp']
   \<and> users db' = users db"
  by (auto simp: Opportunity_create_def Let_def)

lemma build_opportunity_unfold:
  assumes ce: "data ''contact_email'' = Some ce"
    and doc: "as_document (dict_get data ''document'') = Inr document"
    and rc: "resolve_contact db ce (dict_get data ''department'') = (contact, db1)"
    and up: "upload_document ext cfg st document (map_option opp_id opportunity)
               = Inr ((filename, filepath), st')"
  shows "build_opportunity ext cfg db st data opportunity =
           (let data2 = merge_data (data(''contact_email'' := None)) contact filename filepath;
                (opp', db2) = (case opportunity of
                                 Some opp \<Rightarrow> Opportunity_update db1 opp data2
                               | None \<Rightarrow> Opportunity_create db1 data2)
            in Inr (opp', data2, db2, st'))"
  using assms by (simp add: build_opportunity_def dict_get_def Let_def)

lemma build_opportunity_returns:
  assumes "data ''contact_email'' = Some ce" and "data ''document'' = Some (PFile f)"
    and up: "upload_document ext cfg st (Some f) (map_option opp_id opportunity)
               = Inr ((filename, filepath), st')"
  shows "\<exists>opp' data' db'.
           build_opportunity ext cfg db st data opportunity = Inr (opp', data', db', st')"
proof -
  obtain contact db1 where rc: "resolve_contact db ce (dict_get data ''department'') = (contact, db1)"
    by (cases "resolve_contact db ce (dict_get data ''department'')") blast
  have ad: "as_document (dict_get data ''document'') = Inr (Some f)"
    using assms(2) by (simp add: as_document_def dict_get_def)
  show ?thesis
    unfolding build_opportunity_unfold [OF assms(1) ad rc up]
    by (simp add: Let_def split: prod.splits)
qed

lemma build_opportunity_missing_key:
  "data ''contact_email'' = None \<Longrightarrow>
   build_opportunity ext cfg db st data opportunity = Inl (KeyError ''contact_email'', db)"
  by (simp add: build_opportunity_def)

text \<open>
  C8. Claimed: every call resolves or creates the contact, merges the four keys, updates
  or inserts the record and returns the persisted opportunity. A call whose form carries
  no file has \<^verbatim>\<open>None\<close> under \<^verbatim>\<open>document\<close>; \<^verbatim>\<open>upload_document\<close> then raises
  \<^verbatim>\<open>AttributeError\<close> (C1), after the contact was resolved: no data is merged, no
  opportunity is updated, inserted or returned, and a placeholder contact that had to be
  created stays in the store.
\<close>

theorem build_opportunity_no_file_raises:
  assumes "data ''contact_email'' = Some ce" and "dict_get data ''document'' = PNone"
  shows "\<exists>db1. build_opportunity ext cfg db st data opportunity = Inl (AttributeError, db1)
           \<and> opportunities db1 = opportunities db
           \<and> (case User_first db ce of
                Some u \<Rightarrow> db1 = db
              | None \<Rightarrow>
                  users db1 = users db @
                    [\<lparr>user_id = next_user_id db, user_email = ce, role_id = 2,
                      department = dict_get data ''department''\<rparr>])"
proof -
  obtain contact db1 where rc: "resolve_contact db ce (dict_get data ''department'') = (contact, db1)"
    by (cases "resolve_contact db ce (dict_get data ''department'')") blast
  have rc': "resolve_contact db ce (dict_get (data(''contact_email'' := None)) ''department'')
               = (contact, db1)"
    using rc by (simp add: dict_get_def)
  have dd: "dict_get (data(''contact_email'' := None)) ''document'' = PNone"
    using assms(2) by (simp add: dict_get_def)
  have b: "build_opportunity ext cfg db st data opportunity = Inl (AttributeError, db1)"
    using assms(1) rc' dd
    by (simp add: build_opportunity_def as_document_def upload_document_def Let_def)
  have o: "opportunities db1 = opportunities db"
    using resolve_contact_opportunities [OF rc] by simp
  have u: "case User_first db ce of
             Some u \<Rightarrow> db1 = db
           | None \<Rightarrow>
               users db1 = users db @
                 [\<lparr>user_id = next_user_id db, user_email = ce, role_id = 2,
                   department = dict_get data ''department''\<rparr>]"
    using rc by (auto simp: resolve_contact_def User_create_def Let_def split: option.splits)
  from b o u show ?thesis by blast
qed

theorem build_opportunity_no_file_raises_witness:
  "\<exists>db1. build_opportunity ext0 cfg_disk db0 st0 data_nofile None = Inl (AttributeError, db1)
     \<and> opportunities db1 = opportunities db0
     \<and> users db1 = [user_staff,
                     \<lparr>user_id = 2, user_email = PStr ''newbie@city.gov'', role_id = 2,
                       department = PStr ''Parks''\<rparr>]"
proof -
  have ce: "data_nofile ''contact_email'' = Some (PStr ''newbie@city.gov'')"
    and d: "dict_get data_nofile ''document'' = PNone"
    and dep: "dict_get data_nofile ''department'' = PStr ''Parks''"
    by (simp_all add: data_nofile_def dict_get_def)
  have n: "User_first db0 (PStr ''newbie@city.gov'') = None"
    by (simp add: User_first_def db0_def user_staff_def)
  have u: "users db0 = [user_staff]" "next_user_id db0 = 2"
    by (simp_all add: db0_def)
  from build_opportunity_no_file_raises [OF ce d, of ext0 cfg_disk db0 st0 None]
  show ?thesis by (simp add: n u dep)
qed

text \<open>
  With an uploaded file under \<^verbatim>\<open>document\<close> and an upload that returns, the call does what
  the sentence says: the contact is the first user with that email, or else a new user
  with that email and \<^verbatim>\<open>role_id\<close> 2; the returned store holds that contact; the mapping
  loses \<^verbatim>\<open>contact_email\<close> and gains the four keys; and the returned opportunity is a row
  of the returned store, the given one with the mapping's columns set (the number of rows
  unchanged when it was stored before) or a new row with the next id.
\<close>

lemma build_opportunity_with_file:
  assumes ce: "data ''contact_email'' = Some ce"
    and doc: "data ''document'' = Some (PFile f)"
    and up: "upload_document ext cfg st (Some f) (map_option opp_id opportunity)
               = Inr ((filename, filepath), st')"
  shows "\<exists>contact db1 data' opp' db'.
       resolve_contact db ce (dict_get data ''department'') = (contact, db1)
     \<and> (case User_first db ce of
          Some u \<Rightarrow> contact = u \<and> db1 = db
        | None \<Rightarrow> user_email contact = ce \<and> role_id contact = 2
                  \<and> users db1 = users db @ [contact])
     \<and> data' = (data(''contact_email'' := None))
                 (''contact_id'' \<mapsto> PInt (user_id contact), ''created_by'' \<mapsto> PInt 1,
                  ''document'' \<mapsto> opt_str filename, ''document_href'' \<mapsto> opt_str filepath)
     \<and> build_opportunity ext cfg db st data opportunity = Inr (opp', data', db', st')
     \<and> users db' = users db1 \<and> contact \<in> set (users db')
     \<and> (case opportunity of
          Some opp \<Rightarrow>
            opp' = opp\<lparr>opp_columns := opp_columns opp ++ data'\<rparr>
            \<and> (Opportunity_get db (opp_id opp) \<noteq> None
                 \<longrightarrow> length (opportunities db') = length (opportunities db))
        | None \<Rightarrow>
            opp' = \<lparr>opp_id = next_opportunity_id db, opp_columns = data'\<rparr>
            \<and> opportunities db' = opportunities db @ [opp'])
     \<and> opp' \<in> set (opportunities db')"
proof -
  obtain contact db1 where rc: "resolve_contact db ce (dict_get data ''department'') = (contact, db1)"
    by (cases "resolve_contact db ce (dict_get data ''department'')") blast
  have ad: "as_document (dict_get data ''document'') = Inr (Some f)"
    using doc by (simp add: as_document_def dict_get_def)
  let ?data' = "merge_data (data(''contact_email'' := None)) contact filename filepath"
  note unf = build_opportunity_unfold [OF ce ad rc up]
  note rcc = resolve_contact_cases [OF rc]
  note rco = resolve_contact_opportunities [OF rc]
  note rcm = resolve_contact_member [OF rc]
  have g: "Opportunity_get db1 = Opportunity_get db"
    using rco by (simp add: Opportunity_get_def fun_eq_iff)
  show ?thesis
  proof (cases opportunity)
    case None
    obtain opp' db' where cr: "Opportunity_create db1 ?data' = (opp', db')"
      by (cases "Opportunity_create db1 ?data'") blast
    from Opportunity_create_persisted [OF cr] rco
    have p: "opp' = \<lparr>opp_id = next_opportunity_id db, opp_columns = ?data'\<rparr>"
      "opportunities db' = opportunities db @ [opp']" "users db' = users db1" by simp_all
    have b: "build_opportunity ext cfg db st data opportunity = Inr (opp', ?data', db', st')"
      using unf None cr by simp
    from rc rcc rcm b p None show ?thesis
      by (auto simp: merge_data_def split: option.splits)
  next
    case (Some opp)
    obtain opp' db' where upd: "Opportunity_update db1 opp ?data' = (opp', db')"
      by (cases "Opportunity_update db1 opp ?data'") blast
    from Opportunity_update_persisted [OF upd] g rco
    have p: "opp' = opp\<lparr>opp_columns := opp_columns opp ++ ?data'\<rparr>"
      "opp' \<in> set (opportunities db')" "users db' = users db1"
      "Opportunity_get db (opp_id opp) \<noteq> None \<longrightarrow>
         length (opportunities db') = length (opportunities db)" by auto
    have b: "build_opportunity ext cfg db st data opportunity = Inr (opp', ?data', db', st')"
      using unf Some upd by simp
    from rc rcc rcm b p Some show ?thesis
      by (auto simp: merge_data_def split: option.splits)
  qed
qed

lemma data_new_keys:
  "data_new ''contact_email'' = Some (PStr ''newbie@city.gov'')"
  "data_new ''document'' = Some (PFile bid_pdf)"
  "dict_get data_new ''department'' = PStr ''Parks''"
  "dict_get data_new ''document'' = PFile bid_pdf"
  "data_new ''title'' = Some (PStr ''Mowing'')"
  by (simp_all add: data_new_def dict_get_def)

lemma db0_newbie:
  "user_id (fst (resolve_contact db0 (PStr ''newbie@city.gov'') dept)) = 2"
  by (simp add: resolve_contact_def User_first_def User_create_def Let_def db0_def user_staff_def)

lemma upload_bid_s3:
  "\<exists>url st'. upload_document ext0 cfg_s3 st0 (Some bid_pdf) None =
      Inr ((Some ''opportunity-k3x9qz.pdf'', Some url), st')"
  by (simp add: upload_document_def inputs_defs effective_id_def Let_def)

text \<open>
  C9. When the call returns, the mapping it leaves has no key \<^verbatim>\<open>contact_email\<close>; under
  \<^verbatim>\<open>contact_id\<close>, \<^verbatim>\<open>created_by\<close>, \<^verbatim>\<open>document\<close> and \<^verbatim>\<open>document_href\<close> it has the resolved
  contact's id, 1, and the two results of the upload; every other key has the value it
  had (or is absent as it was).
\<close>

theorem build_opportunity_data_frame:
  assumes "build_opportunity ext cfg db st data opportunity = Inr (opp', data', db', st')"
  shows "\<exists>ce contact db1 document filename filepath.
       data ''contact_email'' = Some ce
     \<and> resolve_contact db ce (dict_get data ''department'') = (contact, db1)
     \<and> as_document (dict_get data ''document'') = Inr document
     \<and> upload_document ext cfg st document (map_option opp_id opportunity)
         = Inr ((filename, filepath), st')
     \<and> data' ''contact_email'' = None
     \<and> data' ''contact_id'' = Some (PInt (user_id contact))
     \<and> data' ''created_by'' = Some (PInt 1)
     \<and> data' ''document'' = Some (opt_str filename)
     \<and> data' ''document_href'' = Some (opt_str filepath)
     \<and> (\<forall>k. k \<notin> {''contact_email'', ''contact_id'', ''created_by'', ''document'',
                   ''document_href''} \<longrightarrow> data' k = data k)"
proof -
  from assms obtain ce where ce: "data ''contact_email'' = Some ce"
    by (auto simp: build_opportunity_def split: option.splits)
  obtain contact db1 where rc: "resolve_contact db ce (dict_get data ''department'') = (contact, db1)"
    by (cases "resolve_contact db ce (dict_get data ''department'')") blast
  have rc': "resolve_contact db ce (dict_get (data(''contact_email'' := None)) ''department'')
               = (contact, db1)"
    using rc by (simp add: dict_get_def)
  have dd: "dict_get (data(''contact_email'' := None)) ''document'' = dict_get data ''document''"
    by (simp add: dict_get_def)
  from assms ce rc' dd obtain document where
    ad: "as_document (dict_get data ''document'') = Inr document"
    by (auto simp: build_opportunity_def Let_def split: sum.splits)
  from assms ce rc' dd ad obtain filename filepath st1 where
    up: "upload_document ext cfg st document (map_option opp_id opportunity)
           = Inr ((filename, filepath), st1)"
    by (auto simp: build_opportunity_def Let_def split: sum.splits)
  from build_opportunity_unfold [OF ce ad rc up] assms
  have d: "data' = merge_data (data(''contact_email'' := None)) contact filename filepath"
    and s: "st1 = st'"
    by (auto simp: Let_def split: prod.splits)
  from ce rc ad up d s show ?thesis
    by (auto simp: merge_data_def)
qed

theorem build_opportunity_data_frame_witness:
  "\<exists>opp' data' db' st'.
       build_opportunity ext0 cfg_s3 db0 st0 data_new None = Inr (opp', data', db', st')
     \<and> data' ''contact_email'' = None
     \<and> data' ''contact_id'' = Some (PInt 2) \<and> data' ''created_by'' = Some (PInt 1)
     \<and> data' ''document'' = Some (PStr ''opportunity-k3x9qz.pdf'')
     \<and> data' ''title'' = Some (PStr ''Mowing'')"
proof -
  from upload_bid_s3 obtain url st' where
    u: "upload_document ext0 cfg_s3 st0 (Some bid_pdf) (map_option opp_id (None :: Opportunity option))
          = Inr ((Some ''opportunity-k3x9qz.pdf'', Some url), st')"
    by auto
  from build_opportunity_returns [OF data_new_keys(1) data_new_keys(2) u]
  obtain opp' data' db' where
    b: "build_opportunity ext0 cfg_s3 db0 st0 data_new None = Inr (opp', data', db', st')"
    by blast
  from build_opportunity_data_frame [OF b]
  obtain ce contact db1 document filename filepath where
    ce: "data_new ''contact_email'' = Some ce"
    and rc: "resolve_contact db0 ce (dict_get data_new ''department'') = (contact, db1)"
    and ad: "as_document (dict_get data_new ''document'') = Inr document"
    and up: "upload_document ext0 cfg_s3 st0 document (map_option opp_id (None :: Opportunity option))
               = Inr ((filename, filepath), st')"
    and k: "data' ''contact_email'' = None"
      "data' ''contact_id'' = Some (PInt (user_id contact))"
      "data' ''created_by'' = Some (PInt 1)"
      "data' ''document'' = Some (opt_str filename)"
      "data' ''document_href'' = Some (opt_str filepath)"
    and fr: "\<forall>k. k \<notin> {''contact_email'', ''contact_id'', ''created_by'', ''document'',
                   ''document_href''} \<longrightarrow> data' k = data_new k"
    by (elim exE conjE) (rule that)
  have "ce = PStr ''newbie@city.gov''" using ce by (simp add: data_new_keys)
  with rc db0_newbie [of "dict_get data_new ''department''"] have c: "user_id contact = 2"
    by simp
  have "document = Some bid_pdf" using ad by (simp add: data_new_keys as_document_def)
  with up upload_bid_s3 have f: "filename = Some ''opportunity-k3x9qz.pdf''" by auto
  from fr [rule_format, of "''title''"] have t: "data' ''title'' = data_new ''title''"
    by simp
  from b k c f t show ?thesis by (simp add: opt_str_def data_new_keys)
qed

end
